theory Spec2Isabelle
  imports Main "HOL-Library.Word"
begin

unbundle bit_operations_syntax

section \<open>The books service: data model\<close>

text \<open>
  The service is one Go file, \<^verbatim>\<open>main.go\<close>: five gin handlers over one MongoDB
  collection. The handlers are embedded as functions from the request and the
  world (the collection's state and a trace of the calls made so far) to the
  outcome (the one \<^verbatim>\<open>c.JSON\<close> call of the path taken, or the exit of the process)
  and the new world.
\<close>

type_synonym byte = "8 word"

text \<open>\<^verbatim>\<open>primitive.ObjectID\<close> is \<^verbatim>\<open>[12]byte\<close>; \<^verbatim>\<open>float64\<close> is kept as its 64 bits
  (the program stores and returns prices and never computes with them).\<close>

type_synonym ObjectID = "byte list"
type_synonym float64 = "64 word"

definition NilObjectID :: ObjectID where
  "NilObjectID = replicate 12 0"

definition IsZero :: "ObjectID \<Rightarrow> bool" where
  "IsZero oid = (oid = NilObjectID)"

text \<open>\<^verbatim>\<open>type Book struct\<close> (main.go 16-21). The zero value of the struct is what
  \<^verbatim>\<open>var newBook Book\<close> holds before decoding.\<close>

record Book =
  ID :: ObjectID
  Title :: string
  Author :: string
  Price :: float64

definition zero_Book :: Book where
  "zero_Book = \<lparr>ID = NilObjectID, Title = [], Author = [], Price = 0\<rparr>"

subsection \<open>Identifiers in hexadecimal\<close>

datatype hex_error = ErrInvalidHex | InvalidByteError char | ErrLength

text \<open>\<^verbatim>\<open>encoding/hex\<close>: the value of one hexadecimal digit, either case.\<close>

definition fromHexChar :: "char \<Rightarrow> nat option" where
  "fromHexChar c =
     (let n = (of_char c :: nat) in
      if 48 \<le> n \<and> n \<le> 57 then Some (n - 48)
      else if 97 \<le> n \<and> n \<le> 102 then Some (n - 87)
      else if 65 \<le> n \<and> n \<le> 70 then Some (n - 55)
      else None)"

text \<open>\<^verbatim>\<open>hex.DecodeString\<close>: two digits a byte; the first bad digit is the error, an
  odd length is \<^verbatim>\<open>ErrLength\<close>.\<close>

fun hex_DecodeString :: "string \<Rightarrow> hex_error + byte list" where
  "hex_DecodeString [] = Inr []"
| "hex_DecodeString [p] =
     (case fromHexChar p of None \<Rightarrow> Inl (InvalidByteError p) | Some a \<Rightarrow> Inl ErrLength)"
| "hex_DecodeString (p # q # rest) =
     (case fromHexChar p of
        None \<Rightarrow> Inl (InvalidByteError p)
      | Some a \<Rightarrow>
         (case fromHexChar q of
            None \<Rightarrow> Inl (InvalidByteError q)
          | Some b \<Rightarrow>
             (case hex_DecodeString rest of
                Inl e \<Rightarrow> Inl e
              | Inr bs \<Rightarrow> Inr (of_nat (a * 16 + b) # bs))))"

text \<open>Modelled from the spec: \<^verbatim>\<open>primitive.ObjectIDFromHex\<close> belongs to the MongoDB
  driver, which is not under src/. The spec (section 3) gives the format: 24
  hexadecimal characters, anything else is rejected. The definition follows the
  driver: the length first, then the digits. The handlers only test whether it
  fails.\<close>

definition ObjectIDFromHex :: "string \<Rightarrow> hex_error + ObjectID" where
  "ObjectIDFromHex s =
     (if length s \<noteq> 24 then Inl ErrInvalidHex
      else case hex_DecodeString s of Inl e \<Rightarrow> Inl e | Inr b \<Rightarrow> Inr b)"

text \<open>The format in the spec's words: exactly 24 characters, each a hexadecimal digit.\<close>

definition is_hex_digit :: "char \<Rightarrow> bool" where
  "is_hex_digit c = (c \<in> set ''0123456789abcdefABCDEF'')"

definition well_formed_id :: "string \<Rightarrow> bool" where
  "well_formed_id s = (length s = 24 \<and> list_all is_hex_digit s)"

subsection \<open>Request bodies\<close>

text \<open>The request body as \<^verbatim>\<open>c.BindJSON\<close> sees it: either decoding fails (the string
  is \<^verbatim>\<open>err.Error()\<close>), or the body is a JSON object and each of the four keys of the
  struct's \<^verbatim>\<open>json\<close> tags is present with a value of its type, or absent.\<close>

record json_fields =
  f_id :: "ObjectID option"
  f_title :: "string option"
  f_author :: "string option"
  f_price :: "float64 option"

datatype body = BadJSON string | JSONObject json_fields

text \<open>\<^verbatim>\<open>var b Book; c.BindJSON(&b)\<close>: decoding writes the fields that are present
  into the zero struct; an absent key leaves the zero value.\<close>

definition BindJSON :: "body \<Rightarrow> string + Book" where
  "BindJSON b =
     (case b of
        BadJSON msg \<Rightarrow> Inl msg
      | JSONObject f \<Rightarrow>
          Inr \<lparr>ID = (case f_id f of None \<Rightarrow> ID zero_Book | Some i \<Rightarrow> i),
               Title = (case f_title f of None \<Rightarrow> Title zero_Book | Some t \<Rightarrow> t),
               Author = (case f_author f of None \<Rightarrow> Author zero_Book | Some a \<Rightarrow> a),
               Price = (case f_price f of None \<Rightarrow> Price zero_Book | Some p \<Rightarrow> p)\<rparr>)"

subsection \<open>The collection, as the handlers use it\<close>

text \<open>The errors a call of the driver can return; the handlers only test
  \<^verbatim>\<open>err != nil\<close>.\<close>

datatype store_error =
  ErrNoDocuments | DeadlineExceeded | DuplicateKey | ImmutableField
  | DecodeError string | ServerError string

record UpdateResult =
  MatchedCount :: int
  ModifiedCount :: int

record DeleteResult =
  DeletedCount :: int

text \<open>\<^verbatim>\<open>bookCollection\<close> (main.go 23) is a \<^verbatim>\<open>*mongo.Collection\<close>. The handlers are
  written against its five methods and the decoding of a stored document; the
  state \<open>'s\<close> of the store and its documents \<open>'raw\<close> are whatever the store has.
  \<^verbatim>\<open>Find\<close> gives the documents that the cursor's \<^verbatim>\<open>Next\<close> yields before it
  returns false; \<^verbatim>\<open>UpdateOne\<close> stands for the call with the filter
  \<^verbatim>\<open>{"_id": objID}\<close> and the update \<^verbatim>\<open>{"$set": updatedBook}\<close>.\<close>

record ('s, 'raw) Collection =
  Find :: "'s \<Rightarrow> (store_error + 'raw list) \<times> 's"
  FindOne :: "ObjectID \<Rightarrow> 's \<Rightarrow> (store_error + 'raw) \<times> 's"
  Decode :: "'raw \<Rightarrow> store_error + Book"
  InsertOne :: "Book \<Rightarrow> 's \<Rightarrow> (store_error + ObjectID) \<times> 's"
  UpdateOne :: "ObjectID \<Rightarrow> Book \<Rightarrow> 's \<Rightarrow> (store_error + UpdateResult) \<times> 's"
  DeleteOne :: "ObjectID \<Rightarrow> 's \<Rightarrow> (store_error + DeleteResult) \<times> 's"

text \<open>What a handler did besides answering: each call of \<^verbatim>\<open>c.BindJSON\<close> and of a
  method of the collection, in order, with its arguments.\<close>

datatype event =
  EvBindJSON
  | EvFind
  | EvFindOne ObjectID
  | EvInsertOne Book
  | EvUpdateOne ObjectID Book
  | EvDeleteOne ObjectID

record 's world =
  store :: 's
  trace :: "event list"

subsection \<open>Responses\<close>

text \<open>The values handed to \<^verbatim>\<open>c.JSON\<close>: a \<^verbatim>\<open>gin.H\<close> map (here with one key), a
  \<^verbatim>\<open>Book\<close>, or the slice \<^verbatim>\<open>books\<close>. A Go slice is nil (\<open>None\<close>) until the first
  \<^verbatim>\<open>append\<close>.\<close>

datatype hvalue = Str string | InsertOneResult ObjectID

datatype payload =
  H "(string \<times> hvalue) list"
  | PBook Book
  | PBooks "Book list option"

datatype outcome =
  Response nat payload
  | Fatal store_error

abbreviation StatusOK :: nat where "StatusOK \<equiv> 200"
abbreviation StatusCreated :: nat where "StatusCreated \<equiv> 201"
abbreviation StatusBadRequest :: nat where "StatusBadRequest \<equiv> 400"
abbreviation StatusNotFound :: nat where "StatusNotFound \<equiv> 404"
abbreviation StatusInternalServerError :: nat where "StatusInternalServerError \<equiv> 500"

definition append_slice :: "'a list option \<Rightarrow> 'a \<Rightarrow> 'a list option" where
  "append_slice s x = (case s of None \<Rightarrow> Some [x] | Some xs \<Rightarrow> Some (xs @ [x]))"

section \<open>The handlers\<close>

text \<open>The loop of \<^verbatim>\<open>getBooks\<close> (main.go 56-62): decode each document of the cursor
  and append it; the first decoding error ends the process (\<^verbatim>\<open>log.Fatal\<close>).\<close>

fun decode_loop ::
  "('raw \<Rightarrow> store_error + Book) \<Rightarrow> 'raw list \<Rightarrow> Book list option \<Rightarrow> store_error + Book list option"
where
  "decode_loop dec [] books = Inr books"
| "decode_loop dec (r # rs) books =
     (case dec r of
        Inl err \<Rightarrow> Inl err
      | Inr book \<Rightarrow> decode_loop dec rs (append_slice books book))"

definition getBooks :: "('s, 'raw) Collection \<Rightarrow> 's world \<Rightarrow> outcome \<times> 's world" where
  "getBooks coll w =
     (let books = None;
          (res, s') = Find coll (store w);
          w' = \<lparr>store = s', trace = trace w @ [EvFind]\<rparr>
      in case res of
           Inl err \<Rightarrow>
             (Response StatusInternalServerError (H [(''error'', Str ''Error retrieving books'')]), w')
         | Inr cursor \<Rightarrow>
             (case decode_loop (Decode coll) cursor books of
                Inl err \<Rightarrow> (Fatal err, w')
              | Inr books' \<Rightarrow> (Response StatusOK (PBooks books'), w')))"

text \<open>\<^verbatim>\<open>FindOne(...).Decode(&book)\<close> (main.go 80): the \<^verbatim>\<open>SingleResult\<close> holds the error of
  the lookup or the document found; \<^verbatim>\<open>Decode\<close> returns that error, or decodes the
  document.\<close>

definition SingleResult_Decode ::
  "('s, 'raw) Collection \<Rightarrow> store_error + 'raw \<Rightarrow> store_error + Book"
where
  "SingleResult_Decode coll res = (case res of Inl err \<Rightarrow> Inl err | Inr raw \<Rightarrow> Decode coll raw)"

definition getBookByID :: "('s, 'raw) Collection \<Rightarrow> string \<Rightarrow> 's world \<Rightarrow> outcome \<times> 's world" where
  "getBookByID coll id' w =
     (case ObjectIDFromHex id' of
        Inl err \<Rightarrow> (Response StatusBadRequest (H [(''error'', Str ''Invalid ID'')]), w)
      | Inr objID \<Rightarrow>
         (let (res, s') = FindOne coll objID (store w);
              w' = \<lparr>store = s', trace = trace w @ [EvFindOne objID]\<rparr>
          in case SingleResult_Decode coll res of
               Inl err \<Rightarrow> (Response StatusNotFound (H [(''error'', Str ''Book not found'')]), w')
             | Inr book \<Rightarrow> (Response StatusOK (PBook book), w')))"

definition addBook :: "('s, 'raw) Collection \<Rightarrow> body \<Rightarrow> 's world \<Rightarrow> outcome \<times> 's world" where
  "addBook coll b w =
     (let w1 = w\<lparr>trace := trace w @ [EvBindJSON]\<rparr> in
      case BindJSON b of
        Inl msg \<Rightarrow> (Response StatusBadRequest (H [(''error'', Str msg)]), w1)
      | Inr newBook \<Rightarrow>
         (let (res, s') = InsertOne coll newBook (store w1);
              w2 = \<lparr>store = s', trace = trace w1 @ [EvInsertOne newBook]\<rparr>
          in case res of
               Inl err \<Rightarrow>
                 (Response StatusInternalServerError (H [(''error'', Str ''Error inserting book'')]), w2)
             | Inr result \<Rightarrow>
                 (Response StatusCreated (H [(''insertedID'', InsertOneResult result)]), w2)))"

definition updateBook ::
  "('s, 'raw) Collection \<Rightarrow> string \<Rightarrow> body \<Rightarrow> 's world \<Rightarrow> outcome \<times> 's world"
where
  "updateBook coll id' b w =
     (case ObjectIDFromHex id' of
        Inl err \<Rightarrow> (Response StatusBadRequest (H [(''error'', Str ''Invalid ID'')]), w)
      | Inr objID \<Rightarrow>
         (let w1 = w\<lparr>trace := trace w @ [EvBindJSON]\<rparr> in
          case BindJSON b of
            Inl msg \<Rightarrow> (Response StatusBadRequest (H [(''error'', Str msg)]), w1)
          | Inr updatedBook \<Rightarrow>
             (let (res, s') = UpdateOne coll objID updatedBook (store w1);
                  w2 = \<lparr>store = s', trace = trace w1 @ [EvUpdateOne objID updatedBook]\<rparr>
              in case res of
                   Inl err \<Rightarrow>
                     (Response StatusInternalServerError (H [(''error'', Str ''Error updating book'')]), w2)
                 | Inr result \<Rightarrow>
                     if MatchedCount result = 0
                     then (Response StatusNotFound (H [(''message'', Str ''Book not found'')]), w2)
                     else (Response StatusOK (H [(''message'', Str ''Book updated'')]), w2))))"

definition deleteBook :: "('s, 'raw) Collection \<Rightarrow> string \<Rightarrow> 's world \<Rightarrow> outcome \<times> 's world" where
  "deleteBook coll id' w =
     (case ObjectIDFromHex id' of
        Inl err \<Rightarrow> (Response StatusBadRequest (H [(''error'', Str ''Invalid ID'')]), w)
      | Inr objID \<Rightarrow>
         (let (res, s') = DeleteOne coll objID (store w);
              w' = \<lparr>store = s', trace = trace w @ [EvDeleteOne objID]\<rparr>
          in case res of
               Inl err \<Rightarrow>
                 (Response StatusInternalServerError (H [(''error'', Str ''Error deleting book'')]), w')
             | Inr result \<Rightarrow>
                 if DeletedCount result = 0
                 then (Response StatusNotFound (H [(''message'', Str ''Book not found'')]), w')
                 else (Response StatusOK (H [(''message'', Str ''Book deleted'')]), w')))"

section \<open>The store\<close>

subsection \<open>A MongoDB collection\<close>

text \<open>Modelled from the spec: the document store (the MongoDB server and its Go
  driver) is an external collaborator and not under src/. The spec (section 4.2)
  lists its five operations and (section 3) the full-field overwrite of
  \<^verbatim>\<open>$set\<close> and the uniqueness of \<^verbatim>\<open>_id\<close>. What an operation does with a
  document is the documented behaviour of the driver and the server that the
  code is written against (main.go 10-13): \<^verbatim>\<open>InsertOne\<close> adds a generated
  \<^verbatim>\<open>_id\<close> only to a document that has none and refuses a duplicate; \<^verbatim>\<open>$set\<close>
  writes each field of its operand, leaves the others, and refuses to change
  \<^verbatim>\<open>_id\<close>. This store is reachable: its operations fail for these reasons only.

  A stored document is its \<^verbatim>\<open>_id\<close> and its other fields in order. What the
  struct's \<^verbatim>\<open>bson\<close> tags (main.go 17-20) make of a \<^verbatim>\<open>Book\<close> is \<open>bson_Marshal\<close>:
  \<^verbatim>\<open>_id\<close> is \<^verbatim>\<open>omitempty\<close> and left out when zero, the three other fields are
  always written.\<close>

datatype bson = BString string | BDouble float64

type_synonym document = "ObjectID \<times> (string \<times> bson) list"

definition bson_Marshal :: "Book \<Rightarrow> ObjectID option \<times> (string \<times> bson) list" where
  "bson_Marshal b =
     (if IsZero (ID b) then None else Some (ID b),
      [(''title'', BString (Title b)), (''author'', BString (Author b)),
       (''price'', BDouble (Price b))])"

definition string_field :: "string \<Rightarrow> (string \<times> bson) list \<Rightarrow> store_error + string" where
  "string_field k fs =
     (case map_of fs k of
        None \<Rightarrow> Inr []
      | Some (BString t) \<Rightarrow> Inr t
      | Some (BDouble x) \<Rightarrow> Inl (DecodeError ''cannot decode double into a string type''))"

definition double_field :: "string \<Rightarrow> (string \<times> bson) list \<Rightarrow> store_error + float64" where
  "double_field k fs =
     (case map_of fs k of
        None \<Rightarrow> Inr 0
      | Some (BDouble x) \<Rightarrow> Inr x
      | Some (BString t) \<Rightarrow> Inl (DecodeError ''cannot decode string into a float64 type''))"

text \<open>Decoding a stored document into a \<^verbatim>\<open>Book\<close>: a field of the document that is
  missing leaves the zero value, one of the wrong type is an error.\<close>

definition bson_Unmarshal :: "document \<Rightarrow> store_error + Book" where
  "bson_Unmarshal d =
     (case string_field ''title'' (snd d) of
        Inl e \<Rightarrow> Inl e
      | Inr t \<Rightarrow>
         (case string_field ''author'' (snd d) of
            Inl e \<Rightarrow> Inl e
          | Inr a \<Rightarrow>
             (case double_field ''price'' (snd d) of
                Inl e \<Rightarrow> Inl e
              | Inr p \<Rightarrow> Inr \<lparr>ID = fst d, Title = t, Author = a, Price = p\<rparr>)))"

text \<open>The state of the store: the documents of the collection in insertion order,
  and the identifiers the driver generates (\<open>new_ids s n\<close> is the n-th).\<close>

record mongo_state =
  docs :: "document list"
  new_ids :: "nat \<Rightarrow> ObjectID"
  issued :: nat

fun set_field :: "string \<Rightarrow> bson \<Rightarrow> (string \<times> bson) list \<Rightarrow> (string \<times> bson) list" where
  "set_field k v [] = [(k, v)]"
| "set_field k v (kv # fs) = (if fst kv = k then (k, v) # fs else kv # set_field k v fs)"

definition apply_set :: "(string \<times> bson) list \<Rightarrow> (string \<times> bson) list \<Rightarrow> (string \<times> bson) list" where
  "apply_set upd fs = fold (\<lambda>kv. set_field (fst kv) (snd kv)) upd fs"

fun replace_first :: "ObjectID \<Rightarrow> document \<Rightarrow> document list \<Rightarrow> document list" where
  "replace_first oid d' [] = []"
| "replace_first oid d' (d # ds) = (if fst d = oid then d' # ds else d # replace_first oid d' ds)"

fun remove_first :: "ObjectID \<Rightarrow> document list \<Rightarrow> document list" where
  "remove_first oid [] = []"
| "remove_first oid (d # ds) = (if fst d = oid then ds else d # remove_first oid ds)"

definition find_doc :: "ObjectID \<Rightarrow> document list \<Rightarrow> document option" where
  "find_doc oid ds = find (\<lambda>d. fst d = oid) ds"

definition mongo_Find :: "mongo_state \<Rightarrow> (store_error + document list) \<times> mongo_state" where
  "mongo_Find s = (Inr (docs s), s)"

definition mongo_FindOne :: "ObjectID \<Rightarrow> mongo_state \<Rightarrow> (store_error + document) \<times> mongo_state" where
  "mongo_FindOne oid s =
     (case find_doc oid (docs s) of None \<Rightarrow> (Inl ErrNoDocuments, s) | Some d \<Rightarrow> (Inr d, s))"

definition insert_doc :: "document \<Rightarrow> mongo_state \<Rightarrow> (store_error + ObjectID) \<times> mongo_state" where
  "insert_doc d s =
     (if find_doc (fst d) (docs s) \<noteq> None then (Inl DuplicateKey, s)
      else (Inr (fst d), s\<lparr>docs := docs s @ [d]\<rparr>))"

definition mongo_InsertOne :: "Book \<Rightarrow> mongo_state \<Rightarrow> (store_error + ObjectID) \<times> mongo_state" where
  "mongo_InsertOne b s =
     (case bson_Marshal b of
        (None, fs) \<Rightarrow> insert_doc (new_ids s (issued s), fs) (s\<lparr>issued := issued s + 1\<rparr>)
      | (Some oid, fs) \<Rightarrow> insert_doc (oid, fs) s)"

definition mongo_UpdateOne ::
  "ObjectID \<Rightarrow> Book \<Rightarrow> mongo_state \<Rightarrow> (store_error + UpdateResult) \<times> mongo_state"
where
  "mongo_UpdateOne oid b s =
     (case find_doc oid (docs s) of
        None \<Rightarrow> (Inr \<lparr>MatchedCount = 0, ModifiedCount = 0\<rparr>, s)
      | Some d \<Rightarrow>
         (case bson_Marshal b of (uid, upd) \<Rightarrow>
            if uid \<noteq> None \<and> uid \<noteq> Some oid then (Inl ImmutableField, s)
            else
              (let d' = (oid, apply_set upd (snd d)) in
               (Inr \<lparr>MatchedCount = 1, ModifiedCount = (if d' = d then 0 else 1)\<rparr>,
                s\<lparr>docs := replace_first oid d' (docs s)\<rparr>))))"

definition mongo_DeleteOne :: "ObjectID \<Rightarrow> mongo_state \<Rightarrow> (store_error + DeleteResult) \<times> mongo_state" where
  "mongo_DeleteOne oid s =
     (case find_doc oid (docs s) of
        None \<Rightarrow> (Inr \<lparr>DeletedCount = 0\<rparr>, s)
      | Some d \<Rightarrow> (Inr \<lparr>DeletedCount = 1\<rparr>, s\<lparr>docs := remove_first oid (docs s)\<rparr>))"

definition mongo :: "(mongo_state, document) Collection" where
  "mongo =
     \<lparr>Find = mongo_Find, FindOne = mongo_FindOne, Decode = bson_Unmarshal,
      InsertOne = mongo_InsertOne, UpdateOne = mongo_UpdateOne, DeleteOne = mongo_DeleteOne\<rparr>"

subsection \<open>A store that cannot be reached\<close>

text \<open>Every call runs into the deadline of its context (main.go 46, 77, 97, 124,
  155: ten seconds) and returns the error; nothing is stored.\<close>

definition unreachable :: "(unit, unit) Collection" where
  "unreachable =
     \<lparr>Find = (\<lambda>s. (Inl DeadlineExceeded, s)),
      FindOne = (\<lambda>oid s. (Inl DeadlineExceeded, s)),
      Decode = (\<lambda>raw. Inl (DecodeError ''no document'')),
      InsertOne = (\<lambda>b s. (Inl DeadlineExceeded, s)),
      UpdateOne = (\<lambda>oid b s. (Inl DeadlineExceeded, s)),
      DeleteOne = (\<lambda>oid s. (Inl DeadlineExceeded, s))\<rparr>"

section \<open>The bodies of the responses\<close>

text \<open>\<^verbatim>\<open>c.JSON\<close> encodes its argument with \<^verbatim>\<open>encoding/json\<close>: a nil slice is
  \<^verbatim>\<open>null\<close>, any other slice an array; a struct is an object with the keys of its
  \<^verbatim>\<open>json\<close> tags (main.go 17-20; \<^verbatim>\<open>omitempty\<close> never leaves out an array of twelve
  bytes); an \<^verbatim>\<open>ObjectID\<close> is its 24 hexadecimal digits; a float that is not finite
  cannot be encoded (\<open>None\<close>).\<close>

datatype json =
  JNull
  | JString string
  | JNumber float64
  | JArray "json list"
  | JObject "(string \<times> json) list"

definition hex_digit :: "nat \<Rightarrow> char" where
  "hex_digit n = ''0123456789abcdef'' ! (n mod 16)"

definition Hex :: "ObjectID \<Rightarrow> string" where
  "Hex oid = concat (map (\<lambda>b. [hex_digit (unat b div 16), hex_digit (unat b mod 16)]) oid)"

definition is_finite :: "float64 \<Rightarrow> bool" where
  "is_finite x = (drop_bit 52 x AND 0x7FF \<noteq> 0x7FF)"

definition json_Book :: "Book \<Rightarrow> json option" where
  "json_Book b =
     (if is_finite (Price b)
      then Some (JObject [(''id'', JString (Hex (ID b))), (''title'', JString (Title b)),
                          (''author'', JString (Author b)), (''price'', JNumber (Price b))])
      else None)"

fun json_hvalue :: "hvalue \<Rightarrow> json" where
  "json_hvalue (Str s) = JString s"
| "json_hvalue (InsertOneResult oid) = JObject [(''InsertedID'', JString (Hex oid))]"

fun json_Marshal :: "payload \<Rightarrow> json option" where
  "json_Marshal (H kvs) = Some (JObject (map (\<lambda>kv. (fst kv, json_hvalue (snd kv))) kvs))"
| "json_Marshal (PBook b) = json_Book b"
| "json_Marshal (PBooks None) = Some JNull"
| "json_Marshal (PBooks (Some bs)) =
     (if list_all (\<lambda>b. is_finite (Price b)) bs
      then Some (JArray (map (\<lambda>b. the (json_Book b)) bs))
      else None)"

text \<open>The body that the client of a request reads: the encoding of what the handler
  gave to \<^verbatim>\<open>c.JSON\<close>; no response is written when the process exits.\<close>

definition response_body :: "outcome \<Rightarrow> json option" where
  "response_body out = (case out of Response code obj \<Rightarrow> json_Marshal obj | Fatal err \<Rightarrow> None)"

section \<open>Requests used as examples\<close>

definition dune_id :: string where
  "dune_id = ''5f1d7f3e2c4b5a6978695a4b''"

definition dune_oid :: ObjectID where
  "dune_oid = [0x5f, 0x1d, 0x7f, 0x3e, 0x2c, 0x4b, 0x5a, 0x69, 0x78, 0x69, 0x5a, 0x4b]"

definition other_oid :: ObjectID where
  "other_oid = [0xaa, 0xbb, 0xcc, 0xdd, 0xee, 0xff, 0x00, 0x11, 0x22, 0x33, 0x44, 0x55]"

text \<open>The identifiers the driver of the examples generates: the counter in the
  last byte.\<close>

definition example_ids :: "nat \<Rightarrow> ObjectID" where
  "example_ids n = replicate 11 1 @ [of_nat n]"

definition empty_world :: "mongo_state world" where
  "empty_world = \<lparr>store = \<lparr>docs = [], new_ids = example_ids, issued = 0\<rparr>, trace = []\<rparr>"

text \<open>A collection holding Dune at 9.99 (\<^verbatim>\<open>0x4023FAE147AE147B\<close>).\<close>

definition dune_world :: "mongo_state world" where
  "dune_world =
     \<lparr>store =
        \<lparr>docs = [(dune_oid, [(''title'', BString ''Dune''), (''author'', BString ''Herbert''),
                             (''price'', BDouble 0x4023FAE147AE147B)])],
         new_ids = example_ids, issued = 0\<rparr>,
      trace = []\<rparr>"

text \<open>The body \<^verbatim>\<open>{"price": 12.5}\<close> (\<^verbatim>\<open>0x4029000000000000\<close>).\<close>

definition price_only :: body where
  "price_only =
     JSONObject \<lparr>f_id = None, f_title = None, f_author = None, f_price = Some 0x4029000000000000\<rparr>"

text \<open>The body \<^verbatim>\<open>{"id": "aabbccddeeff001122334455", "price": 12.5}\<close>: no title, no
  author, and an identifier that is not Dune's.\<close>

definition other_id_price :: body where
  "other_id_price =
     JSONObject \<lparr>f_id = Some other_oid, f_title = None, f_author = None,
                 f_price = Some 0x4029000000000000\<rparr>"

text \<open>The same collection with a second record whose title another client stored
  as a number.\<close>

definition corrupt_world :: "mongo_state world" where
  "corrupt_world =
     \<lparr>store =
        \<lparr>docs = [(dune_oid, [(''title'', BString ''Dune''), (''author'', BString ''Herbert''),
                             (''price'', BDouble 0x4023FAE147AE147B)]),
                 (other_oid, [(''title'', BDouble 0)])],
         new_ids = example_ids, issued = 0\<rparr>,
      trace = []\<rparr>"

text \<open>The bodies \<^verbatim>\<open>{"title":"Dune","author":"Herbert","price":9.99}\<close> and the same
  with \<^verbatim>\<open>"id":"5f1d7f3e2c4b5a6978695a4b"\<close>.\<close>

definition dune_body :: body where
  "dune_body =
     JSONObject \<lparr>f_id = None, f_title = Some ''Dune'', f_author = Some ''Herbert'',
                 f_price = Some 0x4023FAE147AE147B\<rparr>"

definition dune_with_id :: body where
  "dune_with_id =
     JSONObject \<lparr>f_id = Some dune_oid, f_title = Some ''Dune'', f_author = Some ''Herbert'',
                 f_price = Some 0x4023FAE147AE147B\<rparr>"

definition down_world :: "unit world" where
  "down_world = \<lparr>store = (), trace = []\<rparr>"

section \<open>Identifiers: the driver's parser and the spec's format agree\<close>

lemma fromHexChar_is_hex_digit: "(fromHexChar c \<noteq> None) = is_hex_digit c"
  by (cases c) (simp add: fromHexChar_def is_hex_digit_def Let_def)

lemma hex_DecodeString_Inr_iff:
  "(\<exists>bs. hex_DecodeString s = Inr bs) = (even (length s) \<and> list_all is_hex_digit s)"
proof (induction s rule: hex_DecodeString.induct)
  case 1
  show ?case by simp
next
  case (2 p)
  show ?case by (simp split: option.splits)
next
  case (3 p q rest)
  show ?case
  proof (cases "fromHexChar p")
    case None
    with fromHexChar_is_hex_digit [of p] show ?thesis by simp
  next
    case (Some a)
    note pa = this
    show ?thesis
    proof (cases "fromHexChar q")
      case None
      with pa fromHexChar_is_hex_digit [of q] show ?thesis by simp
    next
      case (Some b)
      have IH: "(\<exists>bs. hex_DecodeString rest = Inr bs)
                = (even (length rest) \<and> list_all is_hex_digit rest)"
        using 3 [OF pa Some] .
      have hp: "is_hex_digit p" using pa fromHexChar_is_hex_digit [of p] by simp
      have hq: "is_hex_digit q" using Some fromHexChar_is_hex_digit [of q] by simp
      show ?thesis
      proof (cases "hex_DecodeString rest")
        case (Inl e)
        with IH pa Some show ?thesis by auto
      next
        case (Inr bs)
        with IH pa Some hp hq show ?thesis by auto
      qed
    qed
  qed
qed

lemma ObjectIDFromHex_Inr_iff: "(\<exists>oid. ObjectIDFromHex s = Inr oid) = well_formed_id s"
proof (cases "length s = 24")
  case True
  then have "even (length s)" by simp
  with True hex_DecodeString_Inr_iff [of s] show ?thesis
    by (auto simp: ObjectIDFromHex_def well_formed_id_def split: sum.splits)
next
  case False
  then show ?thesis by (simp add: ObjectIDFromHex_def well_formed_id_def)
qed

lemma malformed_id_error: "\<not> well_formed_id s \<Longrightarrow> \<exists>e. ObjectIDFromHex s = Inl e"
  using ObjectIDFromHex_Inr_iff [of s] by (cases "ObjectIDFromHex s") auto

lemma getBookByID_bad_id:
  "\<not> well_formed_id id' \<Longrightarrow>
   getBookByID coll id' w = (Response StatusBadRequest (H [(''error'', Str ''Invalid ID'')]), w)"
  using malformed_id_error [of id'] by (auto simp: getBookByID_def)

lemma updateBook_bad_id:
  "\<not> well_formed_id id' \<Longrightarrow>
   updateBook coll id' b w = (Response StatusBadRequest (H [(''error'', Str ''Invalid ID'')]), w)"
  using malformed_id_error [of id'] by (auto simp: updateBook_def)

lemma deleteBook_bad_id:
  "\<not> well_formed_id id' \<Longrightarrow>
   deleteBook coll id' w = (Response StatusBadRequest (H [(''error'', Str ''Invalid ID'')]), w)"
  using malformed_id_error [of id'] by (auto simp: deleteBook_def)

lemma abc_malformed: "\<not> well_formed_id ''abc''"
  by (simp add: well_formed_id_def)

lemma dune_id_parses: "ObjectIDFromHex dune_id = Inr dune_oid"
  by (simp add: ObjectIDFromHex_def fromHexChar_def dune_id_def dune_oid_def)

lemma dune_oid_Hex: "Hex dune_oid = dune_id"
  by (simp add: Hex_def hex_digit_def dune_id_def dune_oid_def)

section \<open>Claims about malformed identifiers\<close>

text \<open>C2. An identifier that is not 24 hexadecimal characters: get, update and
  delete by id each answer 400 with the message "Invalid ID", and the world
  comes back as it was: the store is in the same state and the trace has no
  new call, so nothing of the collection was called. This holds for every
  collection, whatever its methods do.\<close>

theorem malformed_id_bad_request:
  assumes "\<not> well_formed_id id'"
  shows "getBookByID coll id' w = (Response StatusBadRequest (H [(''error'', Str ''Invalid ID'')]), w)
       \<and> updateBook coll id' b w = (Response StatusBadRequest (H [(''error'', Str ''Invalid ID'')]), w)
       \<and> deleteBook coll id' w = (Response StatusBadRequest (H [(''error'', Str ''Invalid ID'')]), w)"
  using assms by (simp add: getBookByID_bad_id updateBook_bad_id deleteBook_bad_id)

theorem malformed_id_bad_request_witness:
  "\<not> well_formed_id ''abc''
   \<and> getBookByID mongo ''abc'' dune_world
       = (Response 400 (H [(''error'', Str ''Invalid ID'')]), dune_world)
   \<and> updateBook mongo ''abc'' price_only dune_world
       = (Response 400 (H [(''error'', Str ''Invalid ID'')]), dune_world)
   \<and> deleteBook mongo ''abc'' dune_world
       = (Response 400 (H [(''error'', Str ''Invalid ID'')]), dune_world)
   \<and> trace dune_world = []"
  using malformed_id_bad_request [OF abc_malformed, of mongo dune_world price_only]
  by (simp add: well_formed_id_def dune_world_def)

section \<open>Helper facts about the handlers\<close>

lemma decode_loop_Inl_iff:
  "(\<exists>e. decode_loop dec rs books = Inl e) = (\<exists>r \<in> set rs. \<exists>e. dec r = Inl e)"
proof (induction rs arbitrary: books)
  case Nil
  show ?case by simp
next
  case (Cons r rs)
  show ?case
  proof (cases "dec r")
    case (Inl e)
    then show ?thesis by auto
  next
    case (Inr book)
    with Cons [of "append_slice books book"] show ?thesis by auto
  qed
qed

lemma getBookByID_response:
  "ObjectIDFromHex id' = Inr objID \<Longrightarrow>
   fst (getBookByID coll id' w) =
     (case SingleResult_Decode coll (fst (FindOne coll objID (store w))) of
        Inl err \<Rightarrow> Response StatusNotFound (H [(''error'', Str ''Book not found'')])
      | Inr book \<Rightarrow> Response StatusOK (PBook book))"
  by (auto simp: getBookByID_def Let_def split: prod.splits sum.splits)

lemma updateBook_response:
  "ObjectIDFromHex id' = Inr objID \<Longrightarrow>
   fst (updateBook coll id' b w) =
     (case BindJSON b of
        Inl msg \<Rightarrow> Response StatusBadRequest (H [(''error'', Str msg)])
      | Inr updatedBook \<Rightarrow>
         (case fst (UpdateOne coll objID updatedBook (store w)) of
            Inl err \<Rightarrow> Response StatusInternalServerError (H [(''error'', Str ''Error updating book'')])
          | Inr result \<Rightarrow>
              if MatchedCount result = 0
              then Response StatusNotFound (H [(''message'', Str ''Book not found'')])
              else Response StatusOK (H [(''message'', Str ''Book updated'')])))"
  by (auto simp: updateBook_def Let_def split: prod.splits sum.splits)

lemma deleteBook_response:
  "ObjectIDFromHex id' = Inr objID \<Longrightarrow>
   fst (deleteBook coll id' w) =
     (case fst (DeleteOne coll objID (store w)) of
        Inl err \<Rightarrow> Response StatusInternalServerError (H [(''error'', Str ''Error deleting book'')])
      | Inr result \<Rightarrow>
          if DeletedCount result = 0
          then Response StatusNotFound (H [(''message'', Str ''Book not found'')])
          else Response StatusOK (H [(''message'', Str ''Book deleted'')]))"
  by (auto simp: deleteBook_def Let_def split: prod.splits sum.splits)

lemma updateBook_binds_after_id:
  "ObjectIDFromHex id' = Inr objID \<Longrightarrow>
   \<exists>rest. trace (snd (updateBook coll id' b w)) = trace w @ EvBindJSON # rest"
  by (auto simp: updateBook_def Let_def split: prod.splits sum.splits)

section \<open>The examples, evaluated\<close>

lemma empty_lookup:
  "SingleResult_Decode mongo (fst (FindOne mongo dune_oid (store empty_world))) = Inl ErrNoDocuments"
  by (simp add: SingleResult_Decode_def mongo_def mongo_FindOne_def find_doc_def empty_world_def)

lemma down_lookup:
  "SingleResult_Decode unreachable (fst (FindOne unreachable dune_oid (store down_world)))
     = Inl DeadlineExceeded"
  by (simp add: SingleResult_Decode_def unreachable_def)

lemma dune_lookup:
  "SingleResult_Decode mongo (fst (FindOne mongo dune_oid (store dune_world)))
     = Inr \<lparr>ID = dune_oid, Title = ''Dune'', Author = ''Herbert'', Price = 0x4023FAE147AE147B\<rparr>"
  by (simp add: SingleResult_Decode_def mongo_def mongo_FindOne_def find_doc_def dune_world_def
        bson_Unmarshal_def string_field_def double_field_def)

lemma price_only_binds:
  "BindJSON price_only
     = Inr \<lparr>ID = NilObjectID, Title = [], Author = [], Price = 0x4029000000000000\<rparr>"
  by (simp add: BindJSON_def price_only_def zero_Book_def)

lemma down_update:
  "fst (UpdateOne unreachable oid b (store down_world)) = Inl DeadlineExceeded"
  by (simp add: unreachable_def)

lemma empty_update:
  "fst (UpdateOne mongo oid b (store empty_world)) = Inr \<lparr>MatchedCount = 0, ModifiedCount = 0\<rparr>"
  by (simp add: mongo_def mongo_UpdateOne_def find_doc_def empty_world_def)

lemma dune_update:
  "fst (UpdateOne mongo dune_oid
          \<lparr>ID = NilObjectID, Title = [], Author = [], Price = 0x4029000000000000\<rparr> (store dune_world))
     = Inr \<lparr>MatchedCount = 1, ModifiedCount = 1\<rparr>"
  by (simp add: mongo_def mongo_UpdateOne_def find_doc_def dune_world_def bson_Marshal_def
        IsZero_def apply_set_def Let_def)

lemma down_delete: "fst (DeleteOne unreachable oid (store down_world)) = Inl DeadlineExceeded"
  by (simp add: unreachable_def)

lemma empty_delete: "fst (DeleteOne mongo oid (store empty_world)) = Inr \<lparr>DeletedCount = 0\<rparr>"
  by (simp add: mongo_def mongo_DeleteOne_def find_doc_def empty_world_def)

lemma dune_delete: "fst (DeleteOne mongo dune_oid (store dune_world)) = Inr \<lparr>DeletedCount = 1\<rparr>"
  by (simp add: mongo_def mongo_DeleteOne_def find_doc_def dune_world_def)

lemma corrupt_find:
  "fst (Find mongo (store corrupt_world)) =
     Inr [(dune_oid, [(''title'', BString ''Dune''), (''author'', BString ''Herbert''),
                      (''price'', BDouble 0x4023FAE147AE147B)]),
          (other_oid, [(''title'', BDouble 0)])]"
  by (simp add: mongo_def mongo_Find_def corrupt_world_def)

lemma corrupt_decode:
  "Decode mongo (other_oid, [(''title'', BDouble 0)])
     = Inl (DecodeError ''cannot decode double into a string type'')"
  by (simp add: mongo_def bson_Unmarshal_def string_field_def)

lemma dune_getBooks:
  "fst (getBooks mongo dune_world)
     = Response 200 (PBooks (Some [\<lparr>ID = dune_oid, Title = ''Dune'', Author = ''Herbert'',
                                     Price = 0x4023FAE147AE147B\<rparr>]))"
  by (simp add: getBooks_def mongo_def mongo_Find_def dune_world_def bson_Unmarshal_def
        string_field_def double_field_def append_slice_def)

section \<open>Claims about the outcomes of the handlers\<close>

text \<open>C5. Get by id with a well-formed identifier (one that the driver parses,
  which by \<open>ObjectIDFromHex_Inr_iff\<close> is one of 24 hexadecimal characters): every
  error of the lookup, whichever it is (no document, a deadline, a server
  error, a document that does not decode), gives 404 with the message
  "Book not found"; a lookup that succeeds gives 200 with the book.\<close>

theorem getBookByID_lookup:
  assumes "ObjectIDFromHex id' = Inr objID"
  shows "(\<forall>err. SingleResult_Decode coll (fst (FindOne coll objID (store w))) = Inl err \<longrightarrow>
            fst (getBookByID coll id' w)
              = Response StatusNotFound (H [(''error'', Str ''Book not found'')]))
       \<and> (\<forall>book. SingleResult_Decode coll (fst (FindOne coll objID (store w))) = Inr book \<longrightarrow>
            fst (getBookByID coll id' w) = Response StatusOK (PBook book))"
  using assms by (simp add: getBookByID_response)

theorem getBookByID_lookup_witness:
  "ObjectIDFromHex dune_id = Inr dune_oid
   \<and> SingleResult_Decode mongo (fst (FindOne mongo dune_oid (store empty_world))) = Inl ErrNoDocuments
   \<and> fst (getBookByID mongo dune_id empty_world)
       = Response 404 (H [(''error'', Str ''Book not found'')])
   \<and> SingleResult_Decode unreachable (fst (FindOne unreachable dune_oid (store down_world)))
       = Inl DeadlineExceeded
   \<and> fst (getBookByID unreachable dune_id down_world)
       = Response 404 (H [(''error'', Str ''Book not found'')])
   \<and> fst (getBookByID mongo dune_id dune_world)
       = Response 200 (PBook \<lparr>ID = dune_oid, Title = ''Dune'', Author = ''Herbert'',
                               Price = 0x4023FAE147AE147B\<rparr>)"
proof -
  note inst = getBookByID_lookup [OF dune_id_parses]
  have miss: "fst (getBookByID mongo dune_id empty_world)
                = Response 404 (H [(''error'', Str ''Book not found'')])"
    using inst [of mongo empty_world] empty_lookup by blast
  have down: "fst (getBookByID unreachable dune_id down_world)
                = Response 404 (H [(''error'', Str ''Book not found'')])"
    using inst [of unreachable down_world] down_lookup by blast
  have hit: "fst (getBookByID mongo dune_id dune_world)
                = Response 200 (PBook \<lparr>ID = dune_oid, Title = ''Dune'', Author = ''Herbert'',
                               Price = 0x4023FAE147AE147B\<rparr>)"
    using inst [of mongo dune_world] dune_lookup by blast
  show ?thesis using dune_id_parses empty_lookup down_lookup miss down hit by simp
qed

text \<open>C6. Update by id answers, in this order of precedence: a malformed identifier
  400 "Invalid ID"; a body that does not decode 400 with the decoder's message;
  an error of the store 500 "Error updating book"; no matched record 404
  "Book not found"; otherwise 200 with the acknowledgement "Book updated" and
  nothing of the record.\<close>

theorem updateBook_outcomes:
  "(\<not> well_formed_id id' \<longrightarrow>
      fst (updateBook coll id' b w) = Response StatusBadRequest (H [(''error'', Str ''Invalid ID'')]))
   \<and> (\<forall>objID msg. ObjectIDFromHex id' = Inr objID \<and> BindJSON b = Inl msg \<longrightarrow>
      fst (updateBook coll id' b w) = Response StatusBadRequest (H [(''error'', Str msg)]))
   \<and> (\<forall>objID updatedBook err.
        ObjectIDFromHex id' = Inr objID \<and> BindJSON b = Inr updatedBook
        \<and> fst (UpdateOne coll objID updatedBook (store w)) = Inl err \<longrightarrow>
      fst (updateBook coll id' b w)
        = Response StatusInternalServerError (H [(''error'', Str ''Error updating book'')]))
   \<and> (\<forall>objID updatedBook result.
        ObjectIDFromHex id' = Inr objID \<and> BindJSON b = Inr updatedBook
        \<and> fst (UpdateOne coll objID updatedBook (store w)) = Inr result
        \<and> MatchedCount result = 0 \<longrightarrow>
      fst (updateBook coll id' b w)
        = Response StatusNotFound (H [(''message'', Str ''Book not found'')]))
   \<and> (\<forall>objID updatedBook result.
        ObjectIDFromHex id' = Inr objID \<and> BindJSON b = Inr updatedBook
        \<and> fst (UpdateOne coll objID updatedBook (store w)) = Inr result
        \<and> MatchedCount result \<noteq> 0 \<longrightarrow>
      fst (updateBook coll id' b w)
        = Response StatusOK (H [(''message'', Str ''Book updated'')]))"
proof (intro conjI allI impI)
  assume "\<not> well_formed_id id'"
  then show "fst (updateBook coll id' b w)
               = Response StatusBadRequest (H [(''error'', Str ''Invalid ID'')])"
    by (simp add: updateBook_bad_id)
next
  fix objID msg
  assume "ObjectIDFromHex id' = Inr objID \<and> BindJSON b = Inl msg"
  then show "fst (updateBook coll id' b w) = Response StatusBadRequest (H [(''error'', Str msg)])"
    by (simp add: updateBook_response)
next
  fix objID updatedBook err
  assume "ObjectIDFromHex id' = Inr objID \<and> BindJSON b = Inr updatedBook
          \<and> fst (UpdateOne coll objID updatedBook (store w)) = Inl err"
  then show "fst (updateBook coll id' b w)
               = Response StatusInternalServerError (H [(''error'', Str ''Error updating book'')])"
    by (simp add: updateBook_response)
next
  fix objID updatedBook result
  assume "ObjectIDFromHex id' = Inr objID \<and> BindJSON b = Inr updatedBook
          \<and> fst (UpdateOne coll objID updatedBook (store w)) = Inr result
          \<and> MatchedCount result = 0"
  then show "fst (updateBook coll id' b w)
               = Response StatusNotFound (H [(''message'', Str ''Book not found'')])"
    by (simp add: updateBook_response)
next
  fix objID updatedBook result
  assume "ObjectIDFromHex id' = Inr objID \<and> BindJSON b = Inr updatedBook
          \<and> fst (UpdateOne coll objID updatedBook (store w)) = Inr result
          \<and> MatchedCount result \<noteq> 0"
  then show "fst (updateBook coll id' b w)
               = Response StatusOK (H [(''message'', Str ''Book updated'')])"
    by (simp add: updateBook_response)
qed

theorem updateBook_outcomes_witness:
  "fst (updateBook mongo ''abc'' price_only dune_world)
     = Response 400 (H [(''error'', Str ''Invalid ID'')])
   \<and> fst (updateBook mongo dune_id (BadJSON ''EOF'') dune_world)
     = Response 400 (H [(''error'', Str ''EOF'')])
   \<and> fst (updateBook unreachable dune_id price_only down_world)
     = Response 500 (H [(''error'', Str ''Error updating book'')])
   \<and> fst (updateBook mongo dune_id price_only empty_world)
     = Response 404 (H [(''message'', Str ''Book not found'')])
   \<and> fst (updateBook mongo dune_id price_only dune_world)
     = Response 200 (H [(''message'', Str ''Book updated'')])"
proof -
  have bad: "BindJSON (BadJSON ''EOF'') = Inl ''EOF''" by (simp add: BindJSON_def)
  have c1: "fst (updateBook mongo ''abc'' price_only dune_world)
              = Response 400 (H [(''error'', Str ''Invalid ID'')])"
    using updateBook_outcomes [of "''abc''" mongo price_only dune_world] abc_malformed by blast
  have c2: "fst (updateBook mongo dune_id (BadJSON ''EOF'') dune_world)
              = Response 400 (H [(''error'', Str ''EOF'')])"
    using updateBook_outcomes [of dune_id mongo "BadJSON ''EOF''" dune_world] dune_id_parses bad
    by blast
  have c3: "fst (updateBook unreachable dune_id price_only down_world)
              = Response 500 (H [(''error'', Str ''Error updating book'')])"
    using updateBook_outcomes [of dune_id unreachable price_only down_world]
      dune_id_parses price_only_binds down_update by blast
  have c4: "fst (updateBook mongo dune_id price_only empty_world)
              = Response 404 (H [(''message'', Str ''Book not found'')])"
    using updateBook_outcomes [of dune_id mongo price_only empty_world]
      dune_id_parses price_only_binds
      empty_update [of dune_oid "\<lparr>ID = NilObjectID, Title = [], Author = [], Price = 0x4029000000000000\<rparr>"]
    by (metis UpdateResult.select_convs(1))
  have c5: "fst (updateBook mongo dune_id price_only dune_world)
              = Response 200 (H [(''message'', Str ''Book updated'')])"
    using updateBook_outcomes [of dune_id mongo price_only dune_world]
      dune_id_parses price_only_binds dune_update
    by (metis UpdateResult.select_convs(1) zero_neq_one)
  show ?thesis using c1 c2 c3 c4 c5 by simp
qed

text \<open>C7. Delete by id answers: a malformed identifier 400 "Invalid ID"; an error of
  the store 500 "Error deleting book"; no deleted record 404 "Book not found";
  otherwise 200 with the acknowledgement "Book deleted".\<close>

theorem deleteBook_outcomes:
  "(\<not> well_formed_id id' \<longrightarrow>
      fst (deleteBook coll id' w) = Response StatusBadRequest (H [(''error'', Str ''Invalid ID'')]))
   \<and> (\<forall>objID err.
        ObjectIDFromHex id' = Inr objID \<and> fst (DeleteOne coll objID (store w)) = Inl err \<longrightarrow>
      fst (deleteBook coll id' w)
        = Response StatusInternalServerError (H [(''error'', Str ''Error deleting book'')]))
   \<and> (\<forall>objID result.
        ObjectIDFromHex id' = Inr objID \<and> fst (DeleteOne coll objID (store w)) = Inr result
        \<and> DeletedCount result = 0 \<longrightarrow>
      fst (deleteBook coll id' w)
        = Response StatusNotFound (H [(''message'', Str ''Book not found'')]))
   \<and> (\<forall>objID result.
        ObjectIDFromHex id' = Inr objID \<and> fst (DeleteOne coll objID (store w)) = Inr result
        \<and> DeletedCount result \<noteq> 0 \<longrightarrow>
      fst (deleteBook coll id' w)
        = Response StatusOK (H [(''message'', Str ''Book deleted'')]))"
proof (intro conjI allI impI)
  assume "\<not> well_formed_id id'"
  then show "fst (deleteBook coll id' w)
               = Response StatusBadRequest (H [(''error'', Str ''Invalid ID'')])"
    by (simp add: deleteBook_bad_id)
next
  fix objID err
  assume "ObjectIDFromHex id' = Inr objID \<and> fst (DeleteOne coll objID (store w)) = Inl err"
  then show "fst (deleteBook coll id' w)
               = Response StatusInternalServerError (H [(''error'', Str ''Error deleting book'')])"
    by (simp add: deleteBook_response)
next
  fix objID result
  assume "ObjectIDFromHex id' = Inr objID \<and> fst (DeleteOne coll objID (store w)) = Inr result
          \<and> DeletedCount result = 0"
  then show "fst (deleteBook coll id' w)
               = Response StatusNotFound (H [(''message'', Str ''Book not found'')])"
    by (simp add: deleteBook_response)
next
  fix objID result
  assume "ObjectIDFromHex id' = Inr objID \<and> fst (DeleteOne coll objID (store w)) = Inr result
          \<and> DeletedCount result \<noteq> 0"
  then show "fst (deleteBook coll id' w)
               = Response StatusOK (H [(''message'', Str ''Book deleted'')])"
    by (simp add: deleteBook_response)
qed

theorem deleteBook_outcomes_witness:
  "fst (deleteBook mongo ''abc'' dune_world)
     = Response 400 (H [(''error'', Str ''Invalid ID'')])
   \<and> fst (deleteBook unreachable dune_id down_world)
     = Response 500 (H [(''error'', Str ''Error deleting book'')])
   \<and> fst (deleteBook mongo dune_id empty_world)
     = Response 404 (H [(''message'', Str ''Book not found'')])
   \<and> fst (deleteBook mongo dune_id dune_world)
     = Response 200 (H [(''message'', Str ''Book deleted'')])"
proof -
  have c1: "fst (deleteBook mongo ''abc'' dune_world)
              = Response 400 (H [(''error'', Str ''Invalid ID'')])"
    using deleteBook_outcomes [of "''abc''" mongo dune_world] abc_malformed by blast
  have c2: "fst (deleteBook unreachable dune_id down_world)
              = Response 500 (H [(''error'', Str ''Error deleting book'')])"
    using deleteBook_outcomes [of dune_id unreachable down_world] dune_id_parses down_delete
    by blast
  have c3: "fst (deleteBook mongo dune_id empty_world)
              = Response 404 (H [(''message'', Str ''Book not found'')])"
    using deleteBook_outcomes [of dune_id mongo empty_world] dune_id_parses
      empty_delete [of dune_oid]
    by (metis DeleteResult.select_convs(1))
  have c4: "fst (deleteBook mongo dune_id dune_world)
              = Response 200 (H [(''message'', Str ''Book deleted'')])"
    using deleteBook_outcomes [of dune_id mongo dune_world] dune_id_parses dune_delete
    by (metis DeleteResult.select_convs(1) zero_neq_one)
  show ?thesis using c1 c2 c3 c4 by simp
qed

text \<open>C8. The list handler ends the process exactly when the query succeeded and
  some document of its cursor does not decode; on every other path (the query
  failed, or every document decodes) it answers the request.\<close>

theorem getBooks_fatal_iff:
  "(\<exists>err. fst (getBooks coll w) = Fatal err)
   = (\<exists>cursor. fst (Find coll (store w)) = Inr cursor
        \<and> (\<exists>raw \<in> set cursor. \<exists>err. Decode coll raw = Inl err))"
proof (cases "fst (Find coll (store w))")
  case (Inl e)
  then show ?thesis by (auto simp: getBooks_def Let_def split: prod.splits)
next
  case (Inr cursor)
  show ?thesis
  proof (cases "decode_loop (Decode coll) cursor None")
    case (Inl e)
    with decode_loop_Inl_iff [of "Decode coll" cursor None] Inr show ?thesis
      by (auto simp: getBooks_def Let_def split: prod.splits)
  next
    case dl: (Inr books)
    with decode_loop_Inl_iff [of "Decode coll" cursor None] Inr show ?thesis
      by (auto simp: getBooks_def Let_def split: prod.splits)
  qed
qed

theorem getBooks_fatal_iff_witness:
  "(\<exists>err. fst (getBooks mongo corrupt_world) = Fatal err)
   \<and> fst (getBooks mongo dune_world)
       = Response 200 (PBooks (Some [\<lparr>ID = dune_oid, Title = ''Dune'', Author = ''Herbert'',
                                       Price = 0x4023FAE147AE147B\<rparr>]))
   \<and> \<not> (\<exists>err. fst (getBooks mongo dune_world) = Fatal err)"
proof -
  have "\<exists>cursor. fst (Find mongo (store corrupt_world)) = Inr cursor
          \<and> (\<exists>raw \<in> set cursor. \<exists>err. Decode mongo raw = Inl err)"
    using corrupt_find corrupt_decode by simp
  then have fatal: "\<exists>err. fst (getBooks mongo corrupt_world) = Fatal err"
    using getBooks_fatal_iff [of mongo corrupt_world] by simp
  show ?thesis using fatal dune_getBooks by simp
qed

text \<open>C9. Update by id checks the identifier before it looks at the body: with a
  malformed identifier the answer is 400 "Invalid ID" whether the body is
  malformed or not, and the trace has no new event, so \<^verbatim>\<open>BindJSON\<close> was not
  called (with a well-formed identifier it is: \<open>updateBook_binds_after_id\<close>).\<close>

theorem updateBook_id_checked_before_body:
  assumes "\<not> well_formed_id id'"
  shows "fst (updateBook coll id' (BadJSON msg) w)
           = Response StatusBadRequest (H [(''error'', Str ''Invalid ID'')])
       \<and> fst (updateBook coll id' (JSONObject f) w)
           = Response StatusBadRequest (H [(''error'', Str ''Invalid ID'')])
       \<and> trace (snd (updateBook coll id' b w)) = trace w"
  using assms by (simp add: updateBook_bad_id)

theorem updateBook_id_checked_before_body_witness:
  "\<not> well_formed_id ''abc''
   \<and> fst (updateBook mongo ''abc'' (BadJSON ''EOF'') dune_world)
       = Response 400 (H [(''error'', Str ''Invalid ID'')])
   \<and> fst (updateBook mongo ''abc'' price_only dune_world)
       = Response 400 (H [(''error'', Str ''Invalid ID'')])
   \<and> trace (snd (updateBook mongo ''abc'' (BadJSON ''EOF'') dune_world)) = []
   \<and> trace (snd (updateBook mongo ''abc'' price_only dune_world)) = []"
  using abc_malformed
    updateBook_id_checked_before_body [OF abc_malformed, of mongo "''EOF''" dune_world _ "BadJSON ''EOF''"]
    updateBook_id_checked_before_body [OF abc_malformed, of mongo "''EOF''" dune_world
       "\<lparr>f_id = None, f_title = None, f_author = None, f_price = Some 0x4029000000000000\<rparr>" price_only]
  by (simp add: price_only_def dune_world_def)

text \<open>C10. The body of a 404: get by id has the message under the key "error",
  update and delete by id have it under "message"; the acknowledgements of a
  successful update and delete are under "message" too.\<close>

theorem not_found_key_by_operation:
  "(\<forall>p. fst (getBookByID coll id' w) = Response StatusNotFound p \<longrightarrow>
        p = H [(''error'', Str ''Book not found'')])
   \<and> (\<forall>p. fst (updateBook coll id' b w) = Response StatusNotFound p \<longrightarrow>
        p = H [(''message'', Str ''Book not found'')])
   \<and> (\<forall>p. fst (deleteBook coll id' w) = Response StatusNotFound p \<longrightarrow>
        p = H [(''message'', Str ''Book not found'')])
   \<and> (\<forall>p. fst (updateBook coll id' b w) = Response StatusOK p \<longrightarrow>
        p = H [(''message'', Str ''Book updated'')])
   \<and> (\<forall>p. fst (deleteBook coll id' w) = Response StatusOK p \<longrightarrow>
        p = H [(''message'', Str ''Book deleted'')])"
  by (auto simp: getBookByID_def updateBook_def deleteBook_def Let_def
           split: prod.splits sum.splits if_splits)

theorem not_found_key_by_operation_witness:
  "fst (getBookByID mongo dune_id empty_world)
     = Response 404 (H [(''error'', Str ''Book not found'')])
   \<and> fst (updateBook mongo dune_id price_only empty_world)
     = Response 404 (H [(''message'', Str ''Book not found'')])
   \<and> fst (deleteBook mongo dune_id empty_world)
     = Response 404 (H [(''message'', Str ''Book not found'')])
   \<and> fst (updateBook mongo dune_id price_only dune_world)
     = Response 200 (H [(''message'', Str ''Book updated'')])
   \<and> fst (deleteBook mongo dune_id dune_world)
     = Response 200 (H [(''message'', Str ''Book deleted'')])"
proof -
  have g: "\<exists>p. fst (getBookByID mongo dune_id empty_world) = Response 404 p"
    by (simp add: getBookByID_response [OF dune_id_parses] empty_lookup)
  have u: "\<exists>p. fst (updateBook mongo dune_id price_only empty_world) = Response 404 p"
    by (simp add: updateBook_response [OF dune_id_parses] price_only_binds empty_update)
  have d: "\<exists>p. fst (deleteBook mongo dune_id empty_world) = Response 404 p"
    by (simp add: deleteBook_response [OF dune_id_parses] empty_delete)
  have u2: "\<exists>p. fst (updateBook mongo dune_id price_only dune_world) = Response 200 p"
    by (simp add: updateBook_response [OF dune_id_parses] price_only_binds dune_update)
  have d2: "\<exists>p. fst (deleteBook mongo dune_id dune_world) = Response 200 p"
    by (simp add: deleteBook_response [OF dune_id_parses] dune_delete)
  show ?thesis
    using g u d not_found_key_by_operation [of mongo dune_id empty_world price_only]
      u2 d2 not_found_key_by_operation [of mongo dune_id dune_world price_only]
    by auto
qed

section \<open>The store and the encoding: helper facts\<close>

lemma empty_find: "fst (Find mongo (store empty_world)) = Inr []"
  by (simp add: mongo_def mongo_Find_def empty_world_def)

lemma getBooks_empty_cursor:
  "fst (Find coll (store w)) = Inr [] \<Longrightarrow> fst (getBooks coll w) = Response StatusOK (PBooks None)"
  by (auto simp: getBooks_def Let_def split: prod.splits)

lemma addBook_mongo:
  "BindJSON b = Inr newBook \<Longrightarrow>
   addBook mongo b w =
     (case mongo_InsertOne newBook (store w) of
        (Inl err, s') \<Rightarrow>
          (Response StatusInternalServerError (H [(''error'', Str ''Error inserting book'')]),
           \<lparr>store = s', trace = trace w @ [EvBindJSON, EvInsertOne newBook]\<rparr>)
      | (Inr oid, s') \<Rightarrow>
          (Response StatusCreated (H [(''insertedID'', InsertOneResult oid)]),
           \<lparr>store = s', trace = trace w @ [EvBindJSON, EvInsertOne newBook]\<rparr>))"
  by (auto simp: addBook_def mongo_def Let_def split: prod.splits sum.splits)

lemma dune_with_id_binds:
  "BindJSON dune_with_id
     = Inr \<lparr>ID = dune_oid, Title = ''Dune'', Author = ''Herbert'', Price = 0x4023FAE147AE147B\<rparr>"
  by (simp add: BindJSON_def dune_with_id_def)

lemma dune_body_binds:
  "BindJSON dune_body
     = Inr \<lparr>ID = NilObjectID, Title = ''Dune'', Author = ''Herbert'', Price = 0x4023FAE147AE147B\<rparr>"
  by (simp add: BindJSON_def dune_body_def zero_Book_def)

lemma NilObjectID_bytes: "NilObjectID = [0, 0, 0, 0, 0, 0, 0, 0, 0, 0, 0, 0]"
  by (simp add: NilObjectID_def numeral_eq_Suc)

lemma dune_oid_not_zero: "\<not> IsZero dune_oid"
  by (simp add: IsZero_def NilObjectID_bytes dune_oid_def)

lemma example_id_0: "example_ids 0 = [1, 1, 1, 1, 1, 1, 1, 1, 1, 1, 1, 0]"
  by (simp add: example_ids_def numeral_eq_Suc)

lemma map_of_set_field:
  "map_of (set_field k v fs) k' = (if k' = k then Some v else map_of fs k')"
  by (induction fs) auto

lemma map_of_apply_set_Book:
  "map_of (apply_set (snd (bson_Marshal b)) fs) ''title'' = Some (BString (Title b))
   \<and> map_of (apply_set (snd (bson_Marshal b)) fs) ''author'' = Some (BString (Author b))
   \<and> map_of (apply_set (snd (bson_Marshal b)) fs) ''price'' = Some (BDouble (Price b))"
  by (simp add: apply_set_def bson_Marshal_def map_of_set_field)

lemma find_doc_replace_first:
  "find_doc oid ds = Some d \<Longrightarrow> find_doc oid (replace_first oid (oid, fs') ds) = Some (oid, fs')"
  by (induction ds) (auto simp: find_doc_def)

lemma bson_Unmarshal_after_set:
  "bson_Unmarshal (oid, apply_set (snd (bson_Marshal b)) fs)
     = Inr \<lparr>ID = oid, Title = Title b, Author = Author b, Price = Price b\<rparr>"
  using map_of_apply_set_Book [of b fs]
  by (simp add: bson_Unmarshal_def string_field_def double_field_def)

lemma updateBook_mongo_accepted:
  assumes "ObjectIDFromHex id' = Inr objID"
      and "BindJSON b = Inr updatedBook"
      and "find_doc objID (docs (store w)) = Some old"
      and "IsZero (ID updatedBook) \<or> ID updatedBook = objID"
  shows "updateBook mongo id' b w =
           (Response StatusOK (H [(''message'', Str ''Book updated'')]),
            \<lparr>store = (store w)\<lparr>docs :=
                 replace_first objID (objID, apply_set (snd (bson_Marshal updatedBook)) (snd old))
                   (docs (store w))\<rparr>,
             trace = trace w @ [EvBindJSON, EvUpdateOne objID updatedBook]\<rparr>)"
  using assms
  by (auto simp: updateBook_def mongo_def mongo_UpdateOne_def bson_Marshal_def Let_def
           split: prod.splits)

lemma getBookByID_mongo_found:
  assumes "ObjectIDFromHex id' = Inr objID"
      and "find_doc objID (docs (store w)) = Some d"
  shows "fst (getBookByID mongo id' w) =
           (case bson_Unmarshal d of
              Inl err \<Rightarrow> Response StatusNotFound (H [(''error'', Str ''Book not found'')])
            | Inr book \<Rightarrow> Response StatusOK (PBook book))"
  using assms
  by (simp add: getBookByID_response SingleResult_Decode_def mongo_def mongo_FindOne_def)

lemma mongo_UpdateOne_accepts_iff:
  "find_doc objID (docs s) = Some old \<Longrightarrow>
   (\<forall>err. fst (UpdateOne mongo objID b s) \<noteq> Inl err) = (IsZero (ID b) \<or> ID b = objID)"
  by (auto simp: mongo_def mongo_UpdateOne_def bson_Marshal_def Let_def)

lemma updateBook_mongo_refused:
  assumes "ObjectIDFromHex id' = Inr objID"
      and "BindJSON b = Inr updatedBook"
      and "find_doc objID (docs (store w)) = Some old"
      and "\<not> IsZero (ID updatedBook)" and "ID updatedBook \<noteq> objID"
  shows "fst (updateBook mongo id' b w)
           = Response StatusInternalServerError (H [(''error'', Str ''Error updating book'')])
       \<and> store (snd (updateBook mongo id' b w)) = store w"
  using assms
  by (auto simp: updateBook_def mongo_def mongo_UpdateOne_def bson_Marshal_def Let_def
           split: prod.splits)

lemma dune_found:
  "find_doc dune_oid (docs (store dune_world))
     = Some (dune_oid, [(''title'', BString ''Dune''), (''author'', BString ''Herbert''),
                        (''price'', BDouble 0x4023FAE147AE147B)])"
  by (simp add: find_doc_def dune_world_def)

section \<open>Claims about what is stored and what is sent\<close>

text \<open>C3 as stated does not hold: on the empty collection the query succeeds, the
  list handler answers 200 with the slice it never appended to, and the body is
  \<^verbatim>\<open>null\<close>, not the empty array.\<close>

theorem empty_list_not_array_counterexample:
  "fst (Find mongo (store empty_world)) = Inr []
   \<and> fst (getBooks mongo empty_world) = Response 200 (PBooks None)
   \<and> response_body (fst (getBooks mongo empty_world)) = Some JNull
   \<and> response_body (fst (getBooks mongo empty_world)) \<noteq> Some (JArray [])"
  by (simp add: empty_find getBooks_empty_cursor response_body_def)

text \<open>C3, amended. When the query succeeds and its cursor yields no document, the
  list handler answers 200 and the body is JSON \<^verbatim>\<open>null\<close>: \<^verbatim>\<open>books\<close> is declared
  without a value (main.go 45), stays nil when nothing is appended, and a nil
  slice is encoded as \<^verbatim>\<open>null\<close>.\<close>

theorem empty_list_is_null:
  assumes "fst (Find coll (store w)) = Inr []"
  shows "fst (getBooks coll w) = Response StatusOK (PBooks None)
       \<and> response_body (fst (getBooks coll w)) = Some JNull"
  using assms by (simp add: getBooks_empty_cursor response_body_def)

theorem empty_list_is_null_witness:
  "fst (Find mongo (store empty_world)) = Inr []
   \<and> docs (store empty_world) = []
   \<and> fst (getBooks mongo empty_world) = Response 200 (PBooks None)
   \<and> response_body (fst (getBooks mongo empty_world)) = Some JNull"
proof -
  have d: "docs (store empty_world) = []" by (simp add: empty_world_def)
  from empty_list_is_null [OF empty_find] empty_find d show ?thesis by blast
qed

text \<open>C4 as stated does not hold: a create request whose body carries an identifier
  is decoded with it (the \<^verbatim>\<open>json\<close> tag of \<^verbatim>\<open>ID\<close>), the handler passes the
  struct to \<^verbatim>\<open>InsertOne\<close> as it is, the \<^verbatim>\<open>bson\<close> tag writes it as \<^verbatim>\<open>_id\<close>, and
  the record is stored under the identifier of the payload, which is not the one
  the driver would have generated.\<close>

theorem create_ignores_body_id_counterexample:
  "BindJSON dune_with_id
     = Inr \<lparr>ID = dune_oid, Title = ''Dune'', Author = ''Herbert'', Price = 0x4023FAE147AE147B\<rparr>
   \<and> fst (addBook mongo dune_with_id empty_world)
       = Response 201 (H [(''insertedID'', InsertOneResult dune_oid)])
   \<and> docs (store (snd (addBook mongo dune_with_id empty_world)))
       = [(dune_oid, [(''title'', BString ''Dune''), (''author'', BString ''Herbert''),
                      (''price'', BDouble 0x4023FAE147AE147B)])]
   \<and> trace (snd (addBook mongo dune_with_id empty_world))
       = [EvBindJSON, EvInsertOne \<lparr>ID = dune_oid, Title = ''Dune'', Author = ''Herbert'',
                                    Price = 0x4023FAE147AE147B\<rparr>]
   \<and> new_ids (store empty_world) (issued (store empty_world)) \<noteq> dune_oid"
  by (simp add: dune_with_id_binds addBook_mongo [OF dune_with_id_binds] mongo_InsertOne_def
        insert_doc_def bson_Marshal_def dune_oid_not_zero find_doc_def empty_world_def
        example_id_0)
     (simp add: dune_oid_def)

text \<open>C4, amended. The identifier of the record that a create request stores is
  the one in the body when the body has one that is not zero, and the one the
  driver generates otherwise (no identifier in the body, or the zero one). When
  no record has that identifier the answer is 201 with it and the record is
  added under it; when one has, the answer is 500 "Error inserting book" and
  the collection is unchanged.\<close>

theorem addBook_record_id:
  assumes "BindJSON b = Inr newBook"
      and "oid = (if IsZero (ID newBook) then new_ids (store w) (issued (store w)) else ID newBook)"
  shows "(find_doc oid (docs (store w)) = None \<longrightarrow>
            fst (addBook mongo b w) = Response StatusCreated (H [(''insertedID'', InsertOneResult oid)])
          \<and> docs (store (snd (addBook mongo b w)))
              = docs (store w) @ [(oid, snd (bson_Marshal newBook))])
       \<and> (find_doc oid (docs (store w)) \<noteq> None \<longrightarrow>
            fst (addBook mongo b w)
              = Response StatusInternalServerError (H [(''error'', Str ''Error inserting book'')])
          \<and> docs (store (snd (addBook mongo b w))) = docs (store w))"
  using assms
  by (auto simp: addBook_mongo mongo_InsertOne_def insert_doc_def bson_Marshal_def)

theorem addBook_record_id_witness:
  "fst (addBook mongo dune_with_id empty_world)
     = Response 201 (H [(''insertedID'', InsertOneResult dune_oid)])
   \<and> docs (store (snd (addBook mongo dune_with_id empty_world)))
       = [(dune_oid, [(''title'', BString ''Dune''), (''author'', BString ''Herbert''),
                      (''price'', BDouble 0x4023FAE147AE147B)])]
   \<and> fst (addBook mongo dune_body empty_world)
       = Response 201 (H [(''insertedID'', InsertOneResult (example_ids 0))])
   \<and> docs (store (snd (addBook mongo dune_body empty_world)))
       = [(example_ids 0, [(''title'', BString ''Dune''), (''author'', BString ''Herbert''),
                           (''price'', BDouble 0x4023FAE147AE147B)])]
   \<and> fst (addBook mongo dune_with_id dune_world)
       = Response 500 (H [(''error'', Str ''Error inserting book'')])
   \<and> docs (store (snd (addBook mongo dune_with_id dune_world))) = docs (store dune_world)"
proof -
  have free: "find_doc dune_oid (docs (store empty_world)) = None"
    by (simp add: find_doc_def empty_world_def)
  have free0: "find_doc (example_ids 0) (docs (store empty_world)) = None"
    by (simp add: find_doc_def empty_world_def)
  have taken: "find_doc dune_oid (docs (store dune_world)) \<noteq> None"
    by (simp add: find_doc_def dune_world_def)
  have gen: "new_ids (store empty_world) (issued (store empty_world)) = example_ids 0"
    by (simp add: empty_world_def)
  have e: "docs (store empty_world) = []" by (simp add: empty_world_def)
  have a: "fst (addBook mongo dune_with_id empty_world)
             = Response 201 (H [(''insertedID'', InsertOneResult dune_oid)])
         \<and> docs (store (snd (addBook mongo dune_with_id empty_world)))
             = [(dune_oid, [(''title'', BString ''Dune''), (''author'', BString ''Herbert''),
                      (''price'', BDouble 0x4023FAE147AE147B)])]"
    using addBook_record_id [OF dune_with_id_binds, of dune_oid empty_world] free e
    by (simp add: dune_oid_not_zero bson_Marshal_def)
  have b: "fst (addBook mongo dune_body empty_world)
             = Response 201 (H [(''insertedID'', InsertOneResult (example_ids 0))])
         \<and> docs (store (snd (addBook mongo dune_body empty_world)))
             = [(example_ids 0, [(''title'', BString ''Dune''), (''author'', BString ''Herbert''),
                           (''price'', BDouble 0x4023FAE147AE147B)])]"
    using addBook_record_id [OF dune_body_binds, of "example_ids 0" empty_world] free0 e gen
    by (simp add: IsZero_def bson_Marshal_def)
  have c: "fst (addBook mongo dune_with_id dune_world)
             = Response 500 (H [(''error'', Str ''Error inserting book'')])
         \<and> docs (store (snd (addBook mongo dune_with_id dune_world))) = docs (store dune_world)"
    using addBook_record_id [OF dune_with_id_binds, of dune_oid dune_world] taken
    by (simp add: dune_oid_not_zero)
  show ?thesis using a b c by simp
qed

lemma other_id_price_binds:
  "BindJSON other_id_price
     = Inr \<lparr>ID = other_oid, Title = [], Author = [], Price = 0x4029000000000000\<rparr>"
  by (simp add: BindJSON_def other_id_price_def zero_Book_def)

lemma other_oid_not_zero: "\<not> IsZero other_oid"
  by (simp add: IsZero_def NilObjectID_bytes other_oid_def)

lemma other_oid_not_dune: "other_oid \<noteq> dune_oid"
  by (simp add: other_oid_def dune_oid_def)

text \<open>C1 as stated does not hold for every update request: a body that omits
  title and author but carries an identifier other than the record's is decoded
  with it, the handler gives the whole struct to \<^verbatim>\<open>$set\<close>, the store refuses to
  change \<^verbatim>\<open>_id\<close>, the answer is 500, and the record keeps its title and author.\<close>

theorem update_other_id_counterexample:
  "ObjectIDFromHex dune_id = Inr dune_oid
   \<and> find_doc dune_oid (docs (store dune_world))
       = Some (dune_oid, [(''title'', BString ''Dune''), (''author'', BString ''Herbert''),
                          (''price'', BDouble 0x4023FAE147AE147B)])
   \<and> BindJSON other_id_price
       = Inr \<lparr>ID = other_oid, Title = [], Author = [], Price = 0x4029000000000000\<rparr>
   \<and> fst (updateBook mongo dune_id other_id_price dune_world)
       = Response 500 (H [(''error'', Str ''Error updating book'')])
   \<and> docs (store (snd (updateBook mongo dune_id other_id_price dune_world)))
       = docs (store dune_world)
   \<and> fst (getBookByID mongo dune_id (snd (updateBook mongo dune_id other_id_price dune_world)))
       = Response 200 (PBook \<lparr>ID = dune_oid, Title = ''Dune'', Author = ''Herbert'',
                               Price = 0x4023FAE147AE147B\<rparr>)"
proof -
  have idne: "ID \<lparr>ID = other_oid, Title = [], Author = [], Price = (0x4029000000000000 :: float64)\<rparr>
                \<noteq> dune_oid"
    using other_oid_not_dune by simp
  have idnz: "\<not> IsZero (ID \<lparr>ID = other_oid, Title = [], Author = [],
                              Price = (0x4029000000000000 :: float64)\<rparr>)"
    using other_oid_not_zero by simp
  note refused = updateBook_mongo_refused [OF dune_id_parses other_id_price_binds dune_found idnz idne]
  have same: "find_doc dune_oid
                (docs (store (snd (updateBook mongo dune_id other_id_price dune_world))))
              = Some (dune_oid, [(''title'', BString ''Dune''), (''author'', BString ''Herbert''),
                          (''price'', BDouble 0x4023FAE147AE147B)])"
    using refused dune_found by simp
  have readback:
    "fst (getBookByID mongo dune_id (snd (updateBook mongo dune_id other_id_price dune_world)))
       = Response 200 (PBook \<lparr>ID = dune_oid, Title = ''Dune'', Author = ''Herbert'',
                               Price = 0x4023FAE147AE147B\<rparr>)"
    by (simp add: getBookByID_mongo_found [OF dune_id_parses same] bson_Unmarshal_def
          string_field_def double_field_def)
  show ?thesis
    using dune_id_parses dune_found other_id_price_binds refused readback by simp
qed

text \<open>C1, amended. An update of an existing record with a body that decodes and
  that carries no identifier, the zero one, or the record's own: the answer is
  200, and in the stored record title, author and price are the body's values
  where the body has them and the zero value (the empty string, 0) where it
  omits them, whatever they were before; get by id reads the record back so.
  The handler gives the whole decoded struct to \<^verbatim>\<open>$set\<close> (main.go 127-131), and
  the \<^verbatim>\<open>bson\<close> tags of the three fields have no \<^verbatim>\<open>omitempty\<close>. With a body that
  carries any other identifier the answer is 500 "Error updating book" and the
  store is unchanged.\<close>

theorem update_zeroes_omitted_fields:
  assumes "ObjectIDFromHex id' = Inr objID"
      and "find_doc objID (docs (store w)) = Some old"
  shows "(f_id f = None \<or> f_id f = Some NilObjectID \<or> f_id f = Some objID \<longrightarrow>
            fst (updateBook mongo id' (JSONObject f) w)
              = Response StatusOK (H [(''message'', Str ''Book updated'')])
          \<and> (\<exists>fs. find_doc objID (docs (store (snd (updateBook mongo id' (JSONObject f) w))))
                     = Some (objID, fs)
                 \<and> map_of fs ''title''
                     = Some (BString (case f_title f of None \<Rightarrow> [] | Some t \<Rightarrow> t))
                 \<and> map_of fs ''author''
                     = Some (BString (case f_author f of None \<Rightarrow> [] | Some a \<Rightarrow> a))
                 \<and> map_of fs ''price''
                     = Some (BDouble (case f_price f of None \<Rightarrow> 0 | Some p \<Rightarrow> p)))
          \<and> fst (getBookByID mongo id' (snd (updateBook mongo id' (JSONObject f) w)))
              = Response StatusOK
                  (PBook \<lparr>ID = objID,
                          Title = (case f_title f of None \<Rightarrow> [] | Some t \<Rightarrow> t),
                          Author = (case f_author f of None \<Rightarrow> [] | Some a \<Rightarrow> a),
                          Price = (case f_price f of None \<Rightarrow> 0 | Some p \<Rightarrow> p)\<rparr>))
       \<and> (\<forall>other. f_id f = Some other \<and> other \<noteq> NilObjectID \<and> other \<noteq> objID \<longrightarrow>
            fst (updateBook mongo id' (JSONObject f) w)
              = Response StatusInternalServerError (H [(''error'', Str ''Error updating book'')])
          \<and> store (snd (updateBook mongo id' (JSONObject f) w)) = store w)"
proof (intro conjI allI impI)
  define updatedBook where
    "updatedBook = \<lparr>ID = (case f_id f of None \<Rightarrow> NilObjectID | Some i \<Rightarrow> i),
                    Title = (case f_title f of None \<Rightarrow> [] | Some t \<Rightarrow> t),
                    Author = (case f_author f of None \<Rightarrow> [] | Some a \<Rightarrow> a),
                    Price = (case f_price f of None \<Rightarrow> 0 | Some p \<Rightarrow> p)\<rparr>"
  have bind: "BindJSON (JSONObject f) = Inr updatedBook"
    by (simp add: BindJSON_def zero_Book_def updatedBook_def split: option.splits)
  define fs where "fs = apply_set (snd (bson_Marshal updatedBook)) (snd old)"
  {
    assume "f_id f = None \<or> f_id f = Some NilObjectID \<or> f_id f = Some objID"
    then have idok: "IsZero (ID updatedBook) \<or> ID updatedBook = objID"
      by (auto simp: updatedBook_def IsZero_def)
    note upd = updateBook_mongo_accepted [OF assms(1) bind assms(2) idok, folded fs_def]
    have found: "find_doc objID (docs (store (snd (updateBook mongo id' (JSONObject f) w))))
                   = Some (objID, fs)"
      using find_doc_replace_first [OF assms(2)] by (simp add: upd)
    have fields: "map_of fs ''title'' = Some (BString (Title updatedBook))
                \<and> map_of fs ''author'' = Some (BString (Author updatedBook))
                \<and> map_of fs ''price'' = Some (BDouble (Price updatedBook))"
      unfolding fs_def by (rule map_of_apply_set_Book)
    have readback: "fst (getBookByID mongo id' (snd (updateBook mongo id' (JSONObject f) w)))
                  = Response StatusOK (PBook \<lparr>ID = objID, Title = Title updatedBook,
                       Author = Author updatedBook, Price = Price updatedBook\<rparr>)"
      using getBookByID_mongo_found [OF assms(1) found]
        bson_Unmarshal_after_set [of objID updatedBook "snd old"]
      by (simp add: fs_def)
    show "fst (updateBook mongo id' (JSONObject f) w)
            = Response StatusOK (H [(''message'', Str ''Book updated'')])"
      using upd by simp
    show "\<exists>fs. find_doc objID (docs (store (snd (updateBook mongo id' (JSONObject f) w))))
                 = Some (objID, fs)
             \<and> map_of fs ''title''
                 = Some (BString (case f_title f of None \<Rightarrow> [] | Some t \<Rightarrow> t))
             \<and> map_of fs ''author''
                 = Some (BString (case f_author f of None \<Rightarrow> [] | Some a \<Rightarrow> a))
             \<and> map_of fs ''price''
                 = Some (BDouble (case f_price f of None \<Rightarrow> 0 | Some p \<Rightarrow> p))"
      using found fields by (simp add: updatedBook_def)
    show "fst (getBookByID mongo id' (snd (updateBook mongo id' (JSONObject f) w)))
            = Response StatusOK
                (PBook \<lparr>ID = objID,
                        Title = (case f_title f of None \<Rightarrow> [] | Some t \<Rightarrow> t),
                        Author = (case f_author f of None \<Rightarrow> [] | Some a \<Rightarrow> a),
                        Price = (case f_price f of None \<Rightarrow> 0 | Some p \<Rightarrow> p)\<rparr>)"
      using readback by (simp add: updatedBook_def)
  }
  {
    fix other
    assume o: "f_id f = Some other \<and> other \<noteq> NilObjectID \<and> other \<noteq> objID"
    then have nz: "\<not> IsZero (ID updatedBook)" and ne: "ID updatedBook \<noteq> objID"
      by (simp_all add: updatedBook_def IsZero_def)
    note refused = updateBook_mongo_refused [OF assms(1) bind assms(2) nz ne]
    show "fst (updateBook mongo id' (JSONObject f) w)
            = Response StatusInternalServerError (H [(''error'', Str ''Error updating book'')])"
      using refused by simp
    show "store (snd (updateBook mongo id' (JSONObject f) w)) = store w"
      using refused by simp
  }
qed

theorem update_zeroes_omitted_fields_witness:
  "fst (getBookByID mongo dune_id dune_world)
     = Response 200 (PBook \<lparr>ID = dune_oid, Title = ''Dune'', Author = ''Herbert'',
                             Price = 0x4023FAE147AE147B\<rparr>)
   \<and> fst (updateBook mongo dune_id price_only dune_world)
       = Response 200 (H [(''message'', Str ''Book updated'')])
   \<and> fst (getBookByID mongo dune_id (snd (updateBook mongo dune_id price_only dune_world)))
       = Response 200 (PBook \<lparr>ID = dune_oid, Title = [], Author = [],
                               Price = 0x4029000000000000\<rparr>)
   \<and> fst (updateBook mongo dune_id other_id_price dune_world)
       = Response 500 (H [(''error'', Str ''Error updating book'')])
   \<and> store (snd (updateBook mongo dune_id other_id_price dune_world)) = store dune_world"
proof -
  have before: "fst (getBookByID mongo dune_id dune_world)
     = Response 200 (PBook \<lparr>ID = dune_oid, Title = ''Dune'', Author = ''Herbert'',
                             Price = 0x4023FAE147AE147B\<rparr>)"
    by (simp add: getBookByID_response [OF dune_id_parses] dune_lookup)
  have onz: "other_oid \<noteq> NilObjectID"
    using other_oid_not_zero by (simp add: IsZero_def)
  have accepted:
    "fst (updateBook mongo dune_id price_only dune_world)
       = Response 200 (H [(''message'', Str ''Book updated'')])
     \<and> fst (getBookByID mongo dune_id (snd (updateBook mongo dune_id price_only dune_world)))
       = Response 200 (PBook \<lparr>ID = dune_oid, Title = [], Author = [],
                               Price = 0x4029000000000000\<rparr>)"
    using update_zeroes_omitted_fields [OF dune_id_parses dune_found,
        of "\<lparr>f_id = None, f_title = None, f_author = None, f_price = Some 0x4029000000000000\<rparr>"]
    by (simp add: price_only_def)
  have refused:
    "fst (updateBook mongo dune_id other_id_price dune_world)
       = Response 500 (H [(''error'', Str ''Error updating book'')])
     \<and> store (snd (updateBook mongo dune_id other_id_price dune_world)) = store dune_world"
    using update_zeroes_omitted_fields [OF dune_id_parses dune_found,
        of "\<lparr>f_id = Some other_oid, f_title = None, f_author = None,
             f_price = Some 0x4029000000000000\<rparr>"]
      onz other_oid_not_dune
    by (simp add: other_id_price_def)
  show ?thesis using before accepted refused by simp
qed

end
